theory Spec2Isabelle
  imports Main
begin

section \<open>Data model\<close>

text \<open>
  The debug service of \<^verbatim>\<open>src/unnamed/part_000\<close>: a registry of debug adapter
  contributions, a manager of live debug adapter sessions, and the service
  \<^verbatim>\<open>DebugServiceImpl\<close> on top of both.

  A thrown JavaScript \<^verbatim>\<open>Error\<close> is a value of type \<open>error\<close>, carrying its message;
  a function that may throw returns \<open>error + 'a\<close>, and a promise that may reject
  settles to such a value.
\<close>

datatype error = Error string

text \<open>
  \<^verbatim>\<open>DebugConfiguration\<close> is declared in \<^verbatim>\<open>../common/debug-common\<close> and
  \<^verbatim>\<open>DebugAdapterExecutable\<close> in \<^verbatim>\<open>./debug-model\<close>; the code at hand reads
  \<^verbatim>\<open>config.type\<close> only. The further attributes are kept so that a contribution can
  resolve a configuration into a different one.
\<close>

record DebugConfiguration =
  type :: string
  name :: string
  attributes :: "(string \<times> string) list"

record DebugAdapterExecutable =
  program :: string
  args :: "string list"

text \<open>
  Modelled from the spec: the session contract of \<^verbatim>\<open>./debug-model\<close>, whose source is
  not at hand. A session exposes its \<^verbatim>\<open>id\<close>, \<^verbatim>\<open>start()\<close> with an asynchronous result
  and \<^verbatim>\<open>stop()\<close>. The outcome of the transport-level handshake is decided by the
  transport, outside this code: \<open>session_start\<close> is \<open>None\<close> when the promise of
  \<^verbatim>\<open>start()\<close> resolves and \<open>Some e\<close> when it rejects with \<open>e\<close>.
\<close>

record DebugAdapterSession =
  session_id :: string
  configuration :: DebugConfiguration
  executable :: DebugAdapterExecutable
  session_start :: "error option"

text \<open>
  A session factory is its method \<^verbatim>\<open>get(sessionId, config, executable)\<close>, which is code
  of a contributor (or of the container) and may throw.
\<close>

record DebugAdapterSessionFactory =
  get :: "string \<Rightarrow> DebugConfiguration \<Rightarrow> DebugAdapterExecutable \<Rightarrow> error + DebugAdapterSession"

text \<open>
  A contribution: \<^verbatim>\<open>provideDebugConfigurations\<close> is read as a property,
  the two other providers are called and may throw, the factory is optional.
\<close>

record DebugAdapterContribution =
  debugType :: string
  c_provideDebugConfigurations :: "DebugConfiguration list"
  c_resolveDebugConfiguration :: "DebugConfiguration \<Rightarrow> error + DebugConfiguration"
  c_provideDebugAdapterExecutable :: "DebugConfiguration \<Rightarrow> error + DebugAdapterExecutable"
  c_debugAdapterSessionFactory :: "DebugAdapterSessionFactory option"

section \<open>The JavaScript Map\<close>

text \<open>
  A \<^verbatim>\<open>Map\<close> keeps its entries in insertion order: it is a list of key-value pairs.
  \<^verbatim>\<open>set\<close> on a key that is present replaces the value where the entry stands and
  appends a new entry otherwise; \<^verbatim>\<open>delete\<close> drops the entry of the key and is
  silent when there is none; \<^verbatim>\<open>get\<close> returns \<^verbatim>\<open>undefined\<close> (\<open>None\<close>) for a key that
  is absent. A \<^verbatim>\<open>Map\<close> holds a key at most once, and \<open>Map_set\<close> and \<open>Map_delete\<close> keep
  it so (\<open>distinct_Map_set\<close>, \<open>distinct_Map_delete\<close>); on such a list, dropping all
  entries of a key is dropping its entry.
\<close>

type_synonym ('k, 'v) Map = "('k \<times> 'v) list"

fun Map_get :: "('k, 'v) Map \<Rightarrow> 'k \<Rightarrow> 'v option" where
  "Map_get [] k = None"
| "Map_get ((k', v) # es) k = (if k' = k then Some v else Map_get es k)"

fun Map_set :: "('k, 'v) Map \<Rightarrow> 'k \<Rightarrow> 'v \<Rightarrow> ('k, 'v) Map" where
  "Map_set [] k v = [(k, v)]"
| "Map_set ((k', v') # es) k v = (if k' = k then (k, v) # es else (k', v') # Map_set es k v)"

fun Map_delete :: "('k, 'v) Map \<Rightarrow> 'k \<Rightarrow> ('k, 'v) Map" where
  "Map_delete [] k = []"
| "Map_delete ((k', v) # es) k = (if k' = k then Map_delete es k else (k', v) # Map_delete es k)"

definition Map_keys :: "('k, 'v) Map \<Rightarrow> 'k list" where
  "Map_keys es = map fst es"

definition Map_values :: "('k, 'v) Map \<Rightarrow> 'v list" where
  "Map_values es = map snd es"

section \<open>DebugAdapterContributionRegistry\<close>

record DebugAdapterContributionRegistry =
  contribs :: "(string, DebugAdapterContribution) Map"

text \<open>
  The constructor: \<open>contributions\<close> is the array returned by
  \<^verbatim>\<open>this.contributions.getContributions()\<close>, and the loop sets each contribution under
  its debug type, in the order of the array.
\<close>

fun register :: "(string, DebugAdapterContribution) Map \<Rightarrow> DebugAdapterContribution list
    \<Rightarrow> (string, DebugAdapterContribution) Map" where
  "register m [] = m"
| "register m (contrib # rest) = register (Map_set m (debugType contrib) contrib) rest"

definition constructor :: "DebugAdapterContribution list \<Rightarrow> DebugAdapterContributionRegistry" where
  "constructor contributions = \<lparr> contribs = register [] contributions \<rparr>"

definition debugTypes :: "DebugAdapterContributionRegistry \<Rightarrow> string list" where
  "debugTypes reg = Map_keys (contribs reg)"

text \<open>The error of the three throwing lookups, with the message of the template literal.\<close>

definition notRegistered :: "string \<Rightarrow> error" where
  "notRegistered debugType' =
     Error (''Debug adapter '' @ [CHR 0x27] @ debugType' @ [CHR 0x27] @ '' isn''
            @ [CHR 0x27] @ ''t registered.'')"

definition provideDebugConfigurations ::
    "DebugAdapterContributionRegistry \<Rightarrow> string \<Rightarrow> error + DebugConfiguration list" where
  "provideDebugConfigurations reg debugType' =
     (case Map_get (contribs reg) debugType' of
        Some contrib \<Rightarrow> Inr (c_provideDebugConfigurations contrib)
      | None \<Rightarrow> Inl (notRegistered debugType'))"

definition resolveDebugConfiguration ::
    "DebugAdapterContributionRegistry \<Rightarrow> DebugConfiguration \<Rightarrow> error + DebugConfiguration" where
  "resolveDebugConfiguration reg config =
     (case Map_get (contribs reg) (type config) of
        Some contrib \<Rightarrow> c_resolveDebugConfiguration contrib config
      | None \<Rightarrow> Inl (notRegistered (type config)))"

definition provideDebugAdapterExecutable ::
    "DebugAdapterContributionRegistry \<Rightarrow> DebugConfiguration \<Rightarrow> error + DebugAdapterExecutable" where
  "provideDebugAdapterExecutable reg config =
     (case Map_get (contribs reg) (type config) of
        Some contrib \<Rightarrow> c_provideDebugAdapterExecutable contrib config
      | None \<Rightarrow> Inl (notRegistered (type config)))"

text \<open>
  The fourth lookup has no \<^verbatim>\<open>throw\<close>: the function falls off its end, and returns
  \<^verbatim>\<open>undefined\<close>, when the type is not registered.
\<close>

definition debugAdapterSessionFactory ::
    "DebugAdapterContributionRegistry \<Rightarrow> string \<Rightarrow> DebugAdapterSessionFactory option" where
  "debugAdapterSessionFactory reg debugType' =
     (case Map_get (contribs reg) debugType' of
        Some contrib \<Rightarrow> c_debugAdapterSessionFactory contrib
      | None \<Rightarrow> None)"

section \<open>DebugAdapterSessionManager\<close>

record DebugAdapterSessionManager =
  registry :: DebugAdapterContributionRegistry
  defaultFactory :: DebugAdapterSessionFactory
  sessions :: "(string, DebugAdapterSession) Map"

text \<open>
  \<^verbatim>\<open>create\<close>: the argument \<open>sessionId\<close> is the value that \<^verbatim>\<open>UUID.uuid4()\<close> returns in
  this call. The statements run in the order of the source: the factory is chosen
  (\<^verbatim>\<open>||\<close> takes the default when the registry returns \<^verbatim>\<open>undefined\<close>), then the
  executable is asked for, then the factory builds the session, then the session is
  set in the map. A throw leaves the method at once.
\<close>

definition create :: "string \<Rightarrow> DebugConfiguration \<Rightarrow> DebugAdapterSessionManager
    \<Rightarrow> (error + DebugAdapterSession) \<times> DebugAdapterSessionManager" where
  "create sessionId config mgr =
     (let factory = (case debugAdapterSessionFactory (registry mgr) (type config) of
                       Some f \<Rightarrow> f
                     | None \<Rightarrow> defaultFactory mgr)
      in case provideDebugAdapterExecutable (registry mgr) config of
           Inl e \<Rightarrow> (Inl e, mgr)
         | Inr executable' \<Rightarrow>
             (case get factory sessionId config executable' of
                Inl e \<Rightarrow> (Inl e, mgr)
              | Inr session \<Rightarrow>
                  (Inr session, mgr\<lparr>sessions := Map_set (sessions mgr) sessionId session\<rparr>)))"

definition remove_session :: "string \<Rightarrow> DebugAdapterSessionManager \<Rightarrow> DebugAdapterSessionManager" where
  "remove_session sessionId mgr = mgr\<lparr>sessions := Map_delete (sessions mgr) sessionId\<rparr>"

definition find_session :: "DebugAdapterSessionManager \<Rightarrow> string \<Rightarrow> DebugAdapterSession option" where
  "find_session mgr sessionId = Map_get (sessions mgr) sessionId"

definition findAll :: "DebugAdapterSessionManager \<Rightarrow> DebugAdapterSession list" where
  "findAll mgr = Map_values (sessions mgr)"

section \<open>DebugServiceImpl\<close>

text \<open>
  The service holds the session manager. \<open>stopped\<close> is not a field of the class: it is
  the history of the \<^verbatim>\<open>stop()\<close> calls that sessions have received, oldest first.
  Modelled from the spec: \<^verbatim>\<open>stop()\<close> of a session (declared in \<^verbatim>\<open>./debug-model\<close>,
  whose source is not at hand) is a termination request that returns at once, does not throw and
  leaves the removal from the map to a later termination notification.
\<close>

record DebugServiceImpl =
  sessionManager :: DebugAdapterSessionManager
  stopped :: "DebugAdapterSession list"

definition stop :: "DebugAdapterSession \<Rightarrow> DebugServiceImpl \<Rightarrow> DebugServiceImpl" where
  "stop debugSession svc = svc\<lparr>stopped := stopped svc @ [debugSession]\<rparr>"

text \<open>
  \<^verbatim>\<open>start\<close>: \<open>uuid\<close> is the identifier drawn inside \<^verbatim>\<open>create\<close>. A throw of \<^verbatim>\<open>create\<close>
  rejects the promise of the \<^verbatim>\<open>async\<close> method; a rejected \<^verbatim>\<open>session.start()\<close> skips the
  \<^verbatim>\<open>then\<close> callback and rejects it with the same error. The method has no \<^verbatim>\<open>catch\<close>.
  The result pairs the value the promise settles to with the service as the statements of
  \<^verbatim>\<open>start\<close> themselves leave it; what other callers do while the handshake is pending is
  not part of it.
\<close>

definition start :: "string \<Rightarrow> DebugConfiguration \<Rightarrow> DebugServiceImpl
    \<Rightarrow> (error + string) \<times> DebugServiceImpl" where
  "start uuid config svc =
     (case create uuid config (sessionManager svc) of
        (Inl e, mgr) \<Rightarrow> (Inl e, svc\<lparr>sessionManager := mgr\<rparr>)
      | (Inr session, mgr) \<Rightarrow>
          (case session_start session of
             Some e \<Rightarrow> (Inl e, svc\<lparr>sessionManager := mgr\<rparr>)
           | None \<Rightarrow> (Inr (session_id session), svc\<lparr>sessionManager := mgr\<rparr>)))"

text \<open>
  \<^verbatim>\<open>dispose(sessionId?)\<close>: the argument is optional, and \<^verbatim>\<open>if (sessionId)\<close> tests its
  truthiness: \<^verbatim>\<open>undefined\<close> and the empty string both take the \<^verbatim>\<open>else\<close> branch.
\<close>

definition truthy :: "string option \<Rightarrow> bool" where
  "truthy s = (case s of None \<Rightarrow> False | Some str \<Rightarrow> str \<noteq> [])"

fun forEach :: "('a \<Rightarrow> 's \<Rightarrow> 's) \<Rightarrow> 'a list \<Rightarrow> 's \<Rightarrow> 's" where
  "forEach f [] s = s"
| "forEach f (x # xs) s = forEach f xs (f x s)"

definition dispose :: "string option \<Rightarrow> DebugServiceImpl \<Rightarrow> (error + unit) \<times> DebugServiceImpl" where
  "dispose sessionId svc =
     (if truthy sessionId then
        (case find_session (sessionManager svc) (the sessionId) of
           Some debugSession \<Rightarrow> (Inr (), stop debugSession svc)
         | None \<Rightarrow> (Inr (), svc))
      else (Inr (), forEach stop (findAll (sessionManager svc)) svc))"

section \<open>Test doubles\<close>

text \<open>
  A contribution for the type \<open>mock\<close>, and a factory that writes its label into the session
  it builds, so that one can read off a session which factory made it.
\<close>

definition mockConfig :: DebugConfiguration where
  "mockConfig = \<lparr> type = ''mock'', name = ''Launch'', attributes = [] \<rparr>"

definition mockExecutable :: DebugAdapterExecutable where
  "mockExecutable = \<lparr> program = ''node'', args = [''mock-adapter.js''] \<rparr>"

definition recordingFactory :: "string \<Rightarrow> error option \<Rightarrow> DebugAdapterSessionFactory" where
  "recordingFactory label outcome =
     \<lparr> get = (\<lambda>sessionId config executable'.
          Inr \<lparr> session_id = sessionId, configuration = config,
                executable = executable'\<lparr>args := args executable' @ [label]\<rparr>,
                session_start = outcome \<rparr>) \<rparr>"

definition mockContribution :: DebugAdapterContribution where
  "mockContribution =
     \<lparr> debugType = ''mock'',
       c_provideDebugConfigurations = [mockConfig],
       c_resolveDebugConfiguration = Inr,
       c_provideDebugAdapterExecutable = (\<lambda>config. Inr mockExecutable),
       c_debugAdapterSessionFactory = None \<rparr>"

definition customContribution :: DebugAdapterContribution where
  "customContribution =
     mockContribution\<lparr> c_provideDebugConfigurations := [],
       c_debugAdapterSessionFactory := Some (recordingFactory ''custom'' None) \<rparr>"

definition handshakeFailed :: error where
  "handshakeFailed = Error ''connection refused''"

definition mockManager :: "DebugAdapterContribution list \<Rightarrow> error option \<Rightarrow> DebugAdapterSessionManager" where
  "mockManager contributions outcome =
     \<lparr> registry = constructor contributions,
       defaultFactory = recordingFactory ''default'' outcome,
       sessions = [] \<rparr>"

definition mockSession :: "string \<Rightarrow> string \<Rightarrow> error option \<Rightarrow> DebugAdapterSession" where
  "mockSession sessionId label outcome =
     \<lparr> session_id = sessionId, configuration = mockConfig,
       executable = \<lparr> program = ''node'', args = [''mock-adapter.js'', label] \<rparr>,
       session_start = outcome \<rparr>"

definition rejectingContribution :: DebugAdapterContribution where
  "rejectingContribution =
     \<lparr> debugType = ''strict'',
       c_provideDebugConfigurations = [],
       c_resolveDebugConfiguration = (\<lambda>config. Inl (Error ''program is required'')),
       c_provideDebugAdapterExecutable = (\<lambda>config. Inl (Error ''no adapter binary'')),
       c_debugAdapterSessionFactory = None \<rparr>"

text \<open>
  A factory that gives every session the id \<open>other\<close>, whatever id it is passed, and a
  contribution for the type \<open>mock\<close> that declares it.
\<close>

definition foreignIdFactory :: DebugAdapterSessionFactory where
  "foreignIdFactory =
     \<lparr> get = (\<lambda>sessionId config executable'.
          get (recordingFactory ''foreign'' None) ''other'' config executable') \<rparr>"

definition foreignIdContribution :: DebugAdapterContribution where
  "foreignIdContribution =
     mockContribution\<lparr> c_debugAdapterSessionFactory := Some foreignIdFactory \<rparr>"

text \<open>A manager with two live sessions, and services around the managers.\<close>

definition liveManager :: DebugAdapterSessionManager where
  "liveManager =
     (mockManager [mockContribution] None)
       \<lparr>sessions := [(''id-1'', mockSession ''id-1'' ''default'' None),
                     (''id-2'', mockSession ''id-2'' ''default'' None)]\<rparr>"

definition failingService :: DebugServiceImpl where
  "failingService =
     \<lparr> sessionManager = mockManager [mockContribution] (Some handshakeFailed), stopped = [] \<rparr>"

definition liveService :: DebugServiceImpl where
  "liveService = \<lparr> sessionManager = liveManager, stopped = [] \<rparr>"

section \<open>Histories of the manager\<close>

text \<open>
  The live map is changed by \<^verbatim>\<open>create\<close> and \<^verbatim>\<open>remove\<close> only. A history is a list of
  such calls, and \<open>run\<close> performs them in order.
\<close>

datatype operation = Create string DebugConfiguration | Remove string

fun perform :: "operation \<Rightarrow> DebugAdapterSessionManager \<Rightarrow> DebugAdapterSessionManager" where
  "perform (Create sessionId config) mgr = snd (create sessionId config mgr)"
| "perform (Remove sessionId) mgr = remove_session sessionId mgr"

fun run :: "operation list \<Rightarrow> DebugAdapterSessionManager \<Rightarrow> DebugAdapterSessionManager" where
  "run [] mgr = mgr"
| "run (op # ops) mgr = run ops (perform op mgr)"

text \<open>A call concerns an identifier when it creates or removes under that identifier.\<close>

fun concerns :: "string \<Rightarrow> operation \<Rightarrow> bool" where
  "concerns k (Create sessionId config) = (sessionId = k)"
| "concerns k (Remove sessionId) = (sessionId = k)"

text \<open>
  The spec's words for the live set, read off a history given latest call first: an
  identifier is live when it was created and not yet removed, so the latest call on the
  identifier decides; a \<^verbatim>\<open>create\<close> that threw created nothing.
\<close>

fun created_not_removed :: "DebugAdapterSessionManager \<Rightarrow> operation list \<Rightarrow> string
    \<Rightarrow> DebugAdapterSession option" where
  "created_not_removed mgr [] k = None"
| "created_not_removed mgr (Remove sessionId # earlier) k =
     (if sessionId = k then None else created_not_removed mgr earlier k)"
| "created_not_removed mgr (Create sessionId config # earlier) k =
     (case fst (create sessionId config mgr) of
        Inr session \<Rightarrow> if sessionId = k then Some session else created_not_removed mgr earlier k
      | Inl e \<Rightarrow> created_not_removed mgr earlier k)"

section \<open>The array that findAll returns\<close>

text \<open>
  Arrays are objects: a caller holds a reference to the array that \<^verbatim>\<open>findAll\<close> returns and
  may change the array in place. The store keeps the manager, with its map, apart from the
  arrays allocated so far; the address of an array is its index in \<open>arrays\<close>.
\<close>

record store =
  manager :: DebugAdapterSessionManager
  arrays :: "DebugAdapterSession list list"

text \<open>
  \<^verbatim>\<open>Array.from\<close> allocates: the new array takes the next free address of the heap and
  holds the values it was given.
\<close>

definition Array_from :: "'a list \<Rightarrow> 'a list list \<Rightarrow> nat \<times> 'a list list" where
  "Array_from values' heap = (length heap, heap @ [values'])"

definition findAll_ref :: "store \<Rightarrow> nat \<times> store" where
  "findAll_ref st =
     (case Array_from (Map_values (sessions (manager st))) (arrays st) of
        (ref, heap') \<Rightarrow> (ref, st\<lparr>arrays := heap'\<rparr>))"

text \<open>Reading an array through a reference; no array lives at an address not yet allocated.\<close>

definition deref :: "store \<Rightarrow> nat \<Rightarrow> DebugAdapterSession list option" where
  "deref st ref = (if ref < length (arrays st) then Some (arrays st ! ref) else None)"

text \<open>
  What the holder of a reference and the other clients of the manager can do next: change
  an array in place (\<^verbatim>\<open>push\<close>, \<^verbatim>\<open>splice\<close>, an indexed write: any function on its
  contents), call \<^verbatim>\<open>create\<close> or \<^verbatim>\<open>remove\<close>, or call \<^verbatim>\<open>findAll\<close> again.
\<close>

datatype step =
    Mutate nat "DebugAdapterSession list \<Rightarrow> DebugAdapterSession list"
  | Call operation
  | CallFindAll

fun exec :: "step \<Rightarrow> store \<Rightarrow> store" where
  "exec (Mutate ref f) st =
     (if ref < length (arrays st) then st\<lparr>arrays := (arrays st)[ref := f (arrays st ! ref)]\<rparr>
      else st)"
| "exec (Call op) st = st\<lparr>manager := perform op (manager st)\<rparr>"
| "exec CallFindAll st = snd (findAll_ref st)"

fun execs :: "step list \<Rightarrow> store \<Rightarrow> store" where
  "execs [] st = st"
| "execs (step # steps) st = execs steps (exec step st)"

fun mutates :: "nat \<Rightarrow> step \<Rightarrow> bool" where
  "mutates ref (Mutate ref' f) = (ref' = ref)"
| "mutates ref (Call op) = False"
| "mutates ref CallFindAll = False"

fun is_mutation :: "step \<Rightarrow> bool" where
  "is_mutation (Mutate ref f) = True"
| "is_mutation (Call op) = False"
| "is_mutation CallFindAll = False"

definition liveStore :: store where
  "liveStore = \<lparr> manager = liveManager, arrays = [] \<rparr>"

section \<open>Simplification sets\<close>

lemmas doubles = mockConfig_def mockExecutable_def recordingFactory_def mockContribution_def
  customContribution_def handshakeFailed_def mockManager_def mockSession_def

lemmas registry_defs = constructor_def debugTypes_def provideDebugConfigurations_def
  resolveDebugConfiguration_def provideDebugAdapterExecutable_def debugAdapterSessionFactory_def

lemmas manager_defs = create_def remove_session_def find_session_def findAll_def Map_values_def

section \<open>Facts about the Map\<close>

lemma Map_get_set: "Map_get (Map_set m k v) k' = (if k' = k then Some v else Map_get m k')"
  by (induction m) auto

lemma Map_get_delete: "Map_get (Map_delete m k) k' = (if k' = k then None else Map_get m k')"
  by (induction m) auto

lemma Map_get_None_iff: "Map_get m k = None \<longleftrightarrow> k \<notin> set (Map_keys m)"
proof (induction m)
  case Nil
  show ?case by (simp add: Map_keys_def)
next
  case (Cons p m)
  obtain k' v' where "p = (k', v')" by (cases p)
  with Cons.IH show ?case by (simp add: Map_keys_def)
qed

lemma Map_delete_absent: "Map_get m k = None \<Longrightarrow> Map_delete m k = m"
  by (induction m) (auto split: if_splits)

lemma Map_delete_idem: "Map_delete (Map_delete m k) k = Map_delete m k"
  by (induction m) auto

lemma Map_get_in_values: "Map_get m k = Some v \<Longrightarrow> v \<in> set (Map_values m)"
  by (induction m) (auto simp: Map_values_def split: if_splits)

lemma set_Map_keys_set: "set (Map_keys (Map_set m k v)) = insert k (set (Map_keys m))"
proof (induction m)
  case Nil
  show ?case by (simp add: Map_keys_def)
next
  case (Cons p m)
  obtain k' v' where "p = (k', v')" by (cases p)
  with Cons.IH show ?case by (auto simp: Map_keys_def)
qed

lemma distinct_Map_set: "distinct (Map_keys m) \<Longrightarrow> distinct (Map_keys (Map_set m k v))"
proof (induction m)
  case Nil
  then show ?case by (simp add: Map_keys_def)
next
  case (Cons p m)
  obtain k' v' where p: "p = (k', v')" by (cases p)
  show ?case
  proof (cases "k' = k")
    case True
    with Cons.prems p show ?thesis by (simp add: Map_keys_def)
  next
    case False
    have "k' \<notin> set (Map_keys (Map_set m k v))"
      using Cons.prems p False by (simp add: set_Map_keys_set) (simp add: Map_keys_def)
    moreover have "distinct (Map_keys (Map_set m k v))"
      using Cons.IH Cons.prems by (simp add: Map_keys_def)
    ultimately show ?thesis using p False by (simp add: Map_keys_def)
  qed
qed

lemma set_Map_keys_delete: "set (Map_keys (Map_delete m k)) = set (Map_keys m) - {k}"
proof (induction m)
  case Nil
  show ?case by (simp add: Map_keys_def)
next
  case (Cons p m)
  obtain k' v' where "p = (k', v')" by (cases p)
  with Cons.IH show ?case by (auto simp: Map_keys_def)
qed

lemma distinct_Map_delete: "distinct (Map_keys m) \<Longrightarrow> distinct (Map_keys (Map_delete m k))"
proof (induction m)
  case Nil
  show ?case by (simp add: Map_keys_def)
next
  case (Cons p m)
  obtain k' v' where p: "p = (k', v')" by (cases p)
  have "k' \<notin> set (Map_keys (Map_delete m k))"
    using Cons.prems p by (simp add: set_Map_keys_delete) (simp add: Map_keys_def)
  moreover have "distinct (Map_keys (Map_delete m k))"
    using Cons.IH Cons.prems by (simp add: Map_keys_def)
  ultimately show ?case using p by (simp add: Map_keys_def)
qed

lemma distinct_register: "distinct (Map_keys m) \<Longrightarrow> distinct (Map_keys (register m cs))"
  by (induction cs arbitrary: m) (auto simp: distinct_Map_set)

lemma find_snoc:
  "List.find P (xs @ [x]) =
     (case List.find P xs of Some y \<Rightarrow> Some y | None \<Rightarrow> if P x then Some x else None)"
  by (induction xs) auto

lemma Map_get_register:
  "Map_get (register m cs) t =
     (case List.find (\<lambda>c. debugType c = t) (rev cs) of
        Some c \<Rightarrow> Some c
      | None \<Rightarrow> Map_get m t)"
proof (induction cs arbitrary: m)
  case Nil
  show ?case by simp
next
  case (Cons c cs)
  show ?case
    by (cases "List.find (\<lambda>c. debugType c = t) (rev cs)")
       (auto simp: Cons.IH find_snoc Map_get_set)
qed

section \<open>Facts about create\<close>

lemma create_cases:
  "create sessionId config mgr = (r, mgr') \<Longrightarrow>
     (case r of
        Inl e \<Rightarrow> mgr' = mgr
      | Inr s \<Rightarrow> mgr' = mgr\<lparr>sessions := Map_set (sessions mgr) sessionId s\<rparr>)"
  by (auto simp: create_def Let_def split: sum.splits)

lemma create_Inr:
  "create sessionId config mgr = (Inr s, mgr') \<Longrightarrow>
     mgr' = mgr\<lparr>sessions := Map_set (sessions mgr) sessionId s\<rparr>"
  using create_cases [of sessionId config mgr "Inr s" mgr'] by simp

lemma fst_create:
  "fst (create sessionId config mgr) =
     (case provideDebugAdapterExecutable (registry mgr) config of
        Inl e \<Rightarrow> Inl e
      | Inr executable' \<Rightarrow>
          get (case debugAdapterSessionFactory (registry mgr) (type config) of
                 Some f \<Rightarrow> f
               | None \<Rightarrow> defaultFactory mgr) sessionId config executable')"
  by (auto simp: create_def Let_def split: sum.splits)

lemma create_result_frame:
  assumes r: "registry mgr2 = registry mgr1" and d: "defaultFactory mgr2 = defaultFactory mgr1"
  shows "fst (create sessionId config mgr2) = fst (create sessionId config mgr1)"
  unfolding fst_create r d by (rule refl)

lemma perform_frame:
  "registry (perform op mgr) = registry mgr \<and> defaultFactory (perform op mgr) = defaultFactory mgr"
proof (cases op)
  case (Create i c)
  obtain r mgr' where c: "create i c mgr = (r, mgr')" by (cases "create i c mgr")
  from create_cases [OF c] Create c show ?thesis by (cases r) auto
next
  case (Remove i)
  then show ?thesis by (simp add: remove_session_def)
qed

lemma run_snoc: "run (ops @ [op]) mgr = perform op (run ops mgr)"
  by (induction ops arbitrary: mgr) auto

lemma run_frame:
  "registry (run ops mgr) = registry mgr \<and> defaultFactory (run ops mgr) = defaultFactory mgr"
  by (induction ops arbitrary: mgr) (auto simp: perform_frame)

lemma find_session_create:
  "find_session (snd (create i c mgr)) k =
     (case fst (create i c mgr) of
        Inr s \<Rightarrow> if i = k then Some s else find_session mgr k
      | Inl e \<Rightarrow> find_session mgr k)"
proof -
  obtain r mgr' where c: "create i c mgr = (r, mgr')" by (cases "create i c mgr")
  from create_cases [OF c] c show ?thesis
    by (cases r) (auto simp: find_session_def Map_get_set)
qed

lemma find_session_remove:
  "find_session (remove_session i mgr) k = (if i = k then None else find_session mgr k)"
  by (auto simp: remove_session_def find_session_def Map_get_delete)

lemma find_session_run:
  "sessions mgr = [] \<Longrightarrow> find_session (run ops mgr) k = created_not_removed mgr (rev ops) k"
proof (induction ops rule: rev_induct)
  case Nil
  then show ?case by (simp add: find_session_def)
next
  case (snoc op ops)
  have fr: "fst (create i c (run ops mgr)) = fst (create i c mgr)" for i c
    by (rule create_result_frame) (simp_all add: run_frame)
  have IH: "find_session (run ops mgr) k = created_not_removed mgr (rev ops) k"
    using snoc by simp
  show ?case
  proof (cases op)
    case (Create i c)
    show ?thesis
      by (cases "fst (create i c mgr)") (simp_all add: Create run_snoc find_session_create fr IH)
  next
    case (Remove i)
    then show ?thesis by (simp add: run_snoc find_session_remove IH)
  qed
qed

lemma find_session_perform_other:
  "\<not> concerns k op \<Longrightarrow> find_session (perform op mgr) k = find_session mgr k"
proof (cases op)
  case (Create i c)
  assume "\<not> concerns k op"
  with Create show ?thesis
    by (cases "fst (create i c mgr)") (simp_all add: find_session_create)
next
  case (Remove i)
  assume "\<not> concerns k op"
  with Remove show ?thesis by (simp add: find_session_remove)
qed

lemma find_session_run_other:
  "\<forall>op \<in> set ops. \<not> concerns k op \<Longrightarrow> find_session (run ops mgr) k = find_session mgr k"
  by (induction ops arbitrary: mgr) (simp_all add: find_session_perform_other)

section \<open>Facts about dispose and about the store\<close>

lemma forEach_stop: "forEach stop xs svc = svc\<lparr>stopped := stopped svc @ xs\<rparr>"
  by (induction xs arbitrary: svc) (simp_all add: stop_def)

lemma findAll_ref_eq:
  "findAll_ref st = (length (arrays st), st\<lparr>arrays := arrays st @ [findAll (manager st)]\<rparr>)"
  by (simp add: findAll_ref_def Array_from_def findAll_def)

lemma deref_findAll_ref:
  "findAll_ref st = (ref, st') \<Longrightarrow> deref st' ref = Some (findAll (manager st))"
  by (auto simp: findAll_ref_eq deref_def)

lemma exec_keeps_array:
  assumes "ref < length (arrays st)" and "\<not> mutates ref step"
  shows "ref < length (arrays (exec step st)) \<and> deref (exec step st) ref = deref st ref"
proof (cases step)
  case (Mutate r f)
  with assms show ?thesis by (auto simp: deref_def)
next
  case (Call op)
  with assms show ?thesis by (simp add: deref_def)
next
  case CallFindAll
  with assms show ?thesis by (simp add: findAll_ref_eq deref_def nth_append)
qed

lemma execs_keep_array:
  "ref < length (arrays st) \<Longrightarrow> \<forall>step \<in> set steps. \<not> mutates ref step \<Longrightarrow>
     deref (execs steps st) ref = deref st ref"
proof (induction steps arbitrary: st)
  case Nil
  show ?case by simp
next
  case (Cons step steps)
  from Cons.prems have k: "ref < length (arrays (exec step st))"
      "deref (exec step st) ref = deref st ref"
    using exec_keeps_array [of ref st step] by simp_all
  from Cons.IH [OF k(1)] Cons.prems(2) k(2) show ?case by simp
qed

lemma exec_mutation_manager: "is_mutation step \<Longrightarrow> manager (exec step st) = manager st"
  by (cases step) simp_all

lemma execs_mutation_manager:
  "\<forall>step \<in> set steps. is_mutation step \<Longrightarrow> manager (execs steps st) = manager st"
  by (induction steps arbitrary: st) (simp_all add: exec_mutation_manager)

section \<open>The registry\<close>

text \<open>
  C4. Two contributions under one debug type: the later one in the order of the
  contribution provider replaces the earlier one. After the constructor, a lookup of a type
  returns the last contribution of the array with that type, and the map holds each type
  once: the conflict is settled while the registry is built, and a lookup is a plain
  \<^verbatim>\<open>get\<close>.
\<close>

theorem registry_last_wins:
  "Map_get (contribs (constructor contributions)) t
     = List.find (\<lambda>c. debugType c = t) (rev contributions)
   \<and> distinct (debugTypes (constructor contributions))"
proof
  show "Map_get (contribs (constructor contributions)) t
          = List.find (\<lambda>c. debugType c = t) (rev contributions)"
    by (simp add: constructor_def Map_get_register split: option.splits)
  have "distinct (Map_keys ([] :: (string, DebugAdapterContribution) Map))"
    by (simp add: Map_keys_def)
  then show "distinct (debugTypes (constructor contributions))"
    unfolding debugTypes_def constructor_def by (simp add: distinct_register)
qed

theorem registry_last_wins_witness:
  "Map_get (contribs (constructor [mockContribution, customContribution])) ''mock''
     = Some customContribution
   \<and> debugTypes (constructor [mockContribution, customContribution]) = [''mock'']"
  using registry_last_wins [of "[mockContribution, customContribution]" "''mock''"]
  by (simp add: doubles constructor_def debugTypes_def Map_keys_def)

text \<open>
  C6. A lookup keyed by a type that is not registered throws the error
  \<open>notRegistered\<close>: \<^verbatim>\<open>provideDebugConfigurations\<close>, \<^verbatim>\<open>resolveDebugConfiguration\<close> and
  \<^verbatim>\<open>provideDebugAdapterExecutable\<close> alike. For a registered type each of the three
  returns what the contribution of that type returns, so an error of the contribution
  comes through as it is and the registry adds no error of its own.
\<close>

theorem registry_unknown_type:
  "(t \<notin> set (debugTypes reg) \<longrightarrow>
      provideDebugConfigurations reg t = Inl (notRegistered t)
      \<and> (type config = t \<longrightarrow>
            resolveDebugConfiguration reg config = Inl (notRegistered t)
            \<and> provideDebugAdapterExecutable reg config = Inl (notRegistered t)))
   \<and> (Map_get (contribs reg) t = Some contrib \<longrightarrow>
      provideDebugConfigurations reg t = Inr (c_provideDebugConfigurations contrib)
      \<and> (type config = t \<longrightarrow>
            resolveDebugConfiguration reg config = c_resolveDebugConfiguration contrib config
            \<and> provideDebugAdapterExecutable reg config
                = c_provideDebugAdapterExecutable contrib config))"
proof -
  have "Map_get (contribs reg) t = None" if "t \<notin> set (debugTypes reg)"
    using that by (simp add: Map_get_None_iff debugTypes_def)
  then show ?thesis
    by (auto simp: provideDebugConfigurations_def resolveDebugConfiguration_def
        provideDebugAdapterExecutable_def)
qed

theorem registry_unknown_type_witness:
  "''nonexistent'' \<notin> set (debugTypes (constructor [mockContribution, rejectingContribution]))
   \<and> provideDebugConfigurations (constructor [mockContribution, rejectingContribution]) ''nonexistent''
       = Inl (notRegistered ''nonexistent'')
   \<and> resolveDebugConfiguration (constructor [mockContribution, rejectingContribution])
        (mockConfig\<lparr>type := ''nonexistent''\<rparr>) = Inl (notRegistered ''nonexistent'')
   \<and> provideDebugAdapterExecutable (constructor [mockContribution, rejectingContribution])
        (mockConfig\<lparr>type := ''nonexistent''\<rparr>) = Inl (notRegistered ''nonexistent'')
   \<and> Map_get (contribs (constructor [mockContribution, rejectingContribution])) ''strict''
       = Some rejectingContribution
   \<and> resolveDebugConfiguration (constructor [mockContribution, rejectingContribution])
        (mockConfig\<lparr>type := ''strict''\<rparr>) = Inl (Error ''program is required'')
   \<and> provideDebugConfigurations (constructor [mockContribution, rejectingContribution]) ''mock''
       = Inr [mockConfig]"
  using registry_unknown_type [of "''nonexistent''" "constructor [mockContribution, rejectingContribution]"
      "mockConfig\<lparr>type := ''nonexistent''\<rparr>"]
    registry_unknown_type [of "''strict''" "constructor [mockContribution, rejectingContribution]"
      "mockConfig\<lparr>type := ''strict''\<rparr>" rejectingContribution]
    registry_unknown_type [of "''mock''" "constructor [mockContribution, rejectingContribution]"
      mockConfig mockContribution]
  by (simp add: doubles rejectingContribution_def constructor_def debugTypes_def Map_keys_def)

text \<open>
  C10. \<^verbatim>\<open>debugAdapterSessionFactory\<close> has no error outcome. For a type that is not
  registered it returns \<^verbatim>\<open>undefined\<close>, where \<^verbatim>\<open>provideDebugConfigurations\<close> throws; for
  a registered type it returns the optional factory of the contribution, which is
  \<^verbatim>\<open>undefined\<close> too when the contribution declares none. The two cases give the same
  result.
\<close>

theorem factory_lookup_never_raises:
  "(t \<notin> set (debugTypes reg) \<longrightarrow>
      debugAdapterSessionFactory reg t = None
      \<and> provideDebugConfigurations reg t = Inl (notRegistered t))
   \<and> (Map_get (contribs reg) t = Some contrib \<longrightarrow>
      debugAdapterSessionFactory reg t = c_debugAdapterSessionFactory contrib)"
proof -
  have "Map_get (contribs reg) t = None" if "t \<notin> set (debugTypes reg)"
    using that by (simp add: Map_get_None_iff debugTypes_def)
  then show ?thesis
    by (auto simp: provideDebugConfigurations_def debugAdapterSessionFactory_def)
qed

theorem factory_lookup_never_raises_witness:
  "''nonexistent'' \<notin> set (debugTypes (constructor [mockContribution]))
   \<and> Map_get (contribs (constructor [mockContribution])) ''mock'' = Some mockContribution
   \<and> debugAdapterSessionFactory (constructor [mockContribution]) ''nonexistent'' = None
   \<and> debugAdapterSessionFactory (constructor [mockContribution]) ''mock'' = None"
  using factory_lookup_never_raises [of "''nonexistent''" "constructor [mockContribution]"]
    factory_lookup_never_raises [of "''mock''" "constructor [mockContribution]" mockContribution]
  by (simp add: doubles constructor_def debugTypes_def Map_keys_def)

section \<open>The session manager\<close>

text \<open>
  C2. \<^verbatim>\<open>create\<close> for a configuration whose type is not registered throws the error that
  \<^verbatim>\<open>provideDebugAdapterExecutable\<close> of the registry throws, \<open>notRegistered\<close>, as it is,
  and the manager, with its live map, is as it was before the call.
\<close>

theorem create_unknown_type:
  "type config \<notin> set (debugTypes (registry mgr)) \<Longrightarrow>
     provideDebugAdapterExecutable (registry mgr) config = Inl (notRegistered (type config))
     \<and> create sessionId config mgr = (Inl (notRegistered (type config)), mgr)"
proof -
  assume "type config \<notin> set (debugTypes (registry mgr))"
  then have "Map_get (contribs (registry mgr)) (type config) = None"
    by (simp add: Map_get_None_iff debugTypes_def)
  then show ?thesis
    by (simp add: create_def provideDebugAdapterExecutable_def Let_def)
qed

theorem create_unknown_type_witness:
  "type (mockConfig\<lparr>type := ''nonexistent''\<rparr>) \<notin> set (debugTypes (registry liveManager))
   \<and> create ''id-3'' (mockConfig\<lparr>type := ''nonexistent''\<rparr>) liveManager
       = (Inl (notRegistered ''nonexistent''), liveManager)
   \<and> findAll liveManager
       = [mockSession ''id-1'' ''default'' None, mockSession ''id-2'' ''default'' None]"
proof -
  have h: "type (mockConfig\<lparr>type := ''nonexistent''\<rparr>)
             \<notin> set (debugTypes (registry liveManager))"
    by (simp add: doubles liveManager_def registry_defs Map_keys_def)
  have t: "type (mockConfig\<lparr>type := ''nonexistent''\<rparr>) = ''nonexistent''"
    by simp
  have f: "findAll liveManager
             = [mockSession ''id-1'' ''default'' None, mockSession ''id-2'' ''default'' None]"
    by (simp add: liveManager_def findAll_def Map_values_def)
  from create_unknown_type [OF h, of "''id-3''"]
  have "create ''id-3'' (mockConfig\<lparr>type := ''nonexistent''\<rparr>) liveManager
          = (Inl (notRegistered ''nonexistent''), liveManager)"
    unfolding t by (rule conjunct2)
  with h f show ?thesis by blast
qed

text \<open>
  C3, as the spec states it, asks that \<^verbatim>\<open>find(s.id)\<close> returns the session \<open>s\<close> that
  \<^verbatim>\<open>create\<close> returned. The map is keyed by the identifier generated in \<^verbatim>\<open>create\<close>, and
  \<^verbatim>\<open>s.id\<close> is what the factory put there: here the type is registered, the factory of
  the contribution gives the session the id \<open>other\<close>, and \<^verbatim>\<open>find\<close> of that id finds
  nothing.
\<close>

theorem create_foreign_id_counterexample:
  "Map_get (contribs (registry (mockManager [foreignIdContribution] None))) (type mockConfig)
     = Some foreignIdContribution
   \<and> fst (create ''id-1'' mockConfig (mockManager [foreignIdContribution] None))
       = Inr (mockSession ''other'' ''foreign'' None)
   \<and> find_session (snd (create ''id-1'' mockConfig (mockManager [foreignIdContribution] None)))
         (session_id (mockSession ''other'' ''foreign'' None)) = None"
  by (simp add: doubles foreignIdFactory_def foreignIdContribution_def manager_defs registry_defs)

text \<open>
  C3, amended. When \<^verbatim>\<open>create\<close> returns a session, the session is in the live map under
  the identifier generated in the call: \<^verbatim>\<open>find\<close> of that identifier returns it and
  \<^verbatim>\<open>findAll\<close> contains it; \<^verbatim>\<open>find(s.id)\<close> returns it where the factory gave the session
  the identifier it was passed. Over any history of \<^verbatim>\<open>create\<close> and \<^verbatim>\<open>remove\<close> calls on
  a manager that starts with no session, an identifier is in the map exactly when it was
  created and not yet removed.
\<close>

theorem create_returns_inserted:
  "(create sessionId config mgr = (Inr s, mgr') \<longrightarrow>
      find_session mgr' sessionId = Some s
      \<and> s \<in> set (findAll mgr')
      \<and> (session_id s = sessionId \<longrightarrow> find_session mgr' (session_id s) = Some s))
   \<and> (sessions mgr0 = [] \<longrightarrow>
      find_session (run ops mgr0) k = created_not_removed mgr0 (rev ops) k)"
proof -
  have "find_session mgr' sessionId = Some s \<and> s \<in> set (findAll mgr')"
    if c: "create sessionId config mgr = (Inr s, mgr')"
  proof -
    have f: "find_session mgr' sessionId = Some s"
      using create_Inr [OF c] by (simp add: find_session_def Map_get_set)
    then have "s \<in> set (findAll mgr')"
      unfolding find_session_def findAll_def by (rule Map_get_in_values)
    with f show ?thesis by simp
  qed
  moreover have "find_session (run ops mgr0) k = created_not_removed mgr0 (rev ops) k"
    if "sessions mgr0 = []"
    using that by (rule find_session_run)
  ultimately show ?thesis by blast
qed

theorem create_returns_inserted_witness:
  "create ''id-3'' mockConfig liveManager
     = (Inr (mockSession ''id-3'' ''default'' None),
        liveManager\<lparr>sessions := sessions liveManager
                       @ [(''id-3'', mockSession ''id-3'' ''default'' None)]\<rparr>)
   \<and> find_session (liveManager\<lparr>sessions := sessions liveManager
                       @ [(''id-3'', mockSession ''id-3'' ''default'' None)]\<rparr>) ''id-3''
       = Some (mockSession ''id-3'' ''default'' None)
   \<and> sessions (mockManager [mockContribution] None) = []
   \<and> find_session (run [Create ''id-1'' mockConfig, Create ''id-2'' mockConfig, Remove ''id-1'']
                      (mockManager [mockContribution] None)) ''id-2''
       = created_not_removed (mockManager [mockContribution] None)
           [Remove ''id-1'', Create ''id-2'' mockConfig, Create ''id-1'' mockConfig] ''id-2''
   \<and> created_not_removed (mockManager [mockContribution] None)
           [Remove ''id-1'', Create ''id-2'' mockConfig, Create ''id-1'' mockConfig] ''id-2''
       = Some (mockSession ''id-2'' ''default'' None)
   \<and> created_not_removed (mockManager [mockContribution] None)
           [Remove ''id-1'', Create ''id-2'' mockConfig, Create ''id-1'' mockConfig] ''id-1''
       = None"
  using create_returns_inserted [where sessionId = "''id-3''" and config = mockConfig
      and mgr = liveManager and s = "mockSession ''id-3'' ''default'' None"
      and mgr' = "liveManager\<lparr>sessions := sessions liveManager
                       @ [(''id-3'', mockSession ''id-3'' ''default'' None)]\<rparr>"
      and ?mgr0.0 = "mockManager [mockContribution] None"
      and ops = "[Create ''id-1'' mockConfig, Create ''id-2'' mockConfig, Remove ''id-1'']"
      and k = "''id-2''"]
  by (simp add: doubles liveManager_def manager_defs registry_defs)

text \<open>
  C5. For a configuration whose type is registered and whose executable is provided,
  \<^verbatim>\<open>create\<close> returns what the factory of the contribution builds when the contribution
  declares one, and what the default factory of the manager builds when it declares none.
\<close>

theorem create_factory_choice:
  assumes "Map_get (contribs (registry mgr)) (type config) = Some contrib"
    and "c_provideDebugAdapterExecutable contrib config = Inr executable'"
  shows "(c_debugAdapterSessionFactory contrib = Some f \<longrightarrow>
            fst (create sessionId config mgr) = get f sessionId config executable')
       \<and> (c_debugAdapterSessionFactory contrib = None \<longrightarrow>
            fst (create sessionId config mgr)
              = get (defaultFactory mgr) sessionId config executable')"
  using assms
  by (simp add: fst_create provideDebugAdapterExecutable_def debugAdapterSessionFactory_def)

theorem create_factory_choice_witness:
  "fst (create ''id-1'' mockConfig (mockManager [customContribution] None))
     = Inr (mockSession ''id-1'' ''custom'' None)
   \<and> fst (create ''id-1'' mockConfig (mockManager [mockContribution] None))
     = Inr (mockSession ''id-1'' ''default'' None)"
proof -
  have a: "Map_get (contribs (registry (mockManager [customContribution] None))) (type mockConfig)
             = Some customContribution"
    by (simp add: doubles constructor_def)
  have b: "c_provideDebugAdapterExecutable customContribution mockConfig = Inr mockExecutable"
    by (simp add: doubles)
  have c: "Map_get (contribs (registry (mockManager [mockContribution] None))) (type mockConfig)
             = Some mockContribution"
    by (simp add: doubles constructor_def)
  have d: "c_provideDebugAdapterExecutable mockContribution mockConfig = Inr mockExecutable"
    by (simp add: doubles)
  show ?thesis
    using create_factory_choice [OF a b, of "recordingFactory ''custom'' None" "''id-1''"]
      create_factory_choice [OF c d, of "recordingFactory ''custom'' None" "''id-1''"]
    by (simp add: doubles)
qed

text \<open>
  C7. \<^verbatim>\<open>remove\<close> has no error outcome: \<^verbatim>\<open>Map.delete\<close> is silent on a key that is
  absent. Removing an identifier that is not in the map leaves the manager as it is,
  removing twice is removing once, and the identifier is not found afterwards.
\<close>

theorem remove_idempotent:
  "(find_session mgr sessionId = None \<longrightarrow> remove_session sessionId mgr = mgr)
   \<and> remove_session sessionId (remove_session sessionId mgr) = remove_session sessionId mgr
   \<and> find_session (remove_session sessionId mgr) sessionId = None"
  by (simp add: find_session_def remove_session_def Map_delete_absent Map_delete_idem
      Map_get_delete)

theorem remove_idempotent_witness:
  "find_session liveManager ''id-3'' = None
   \<and> remove_session ''id-3'' liveManager = liveManager
   \<and> remove_session ''id-1'' (remove_session ''id-1'' liveManager)
       = remove_session ''id-1'' liveManager
   \<and> findAll (remove_session ''id-1'' liveManager) = [mockSession ''id-2'' ''default'' None]"
  using remove_idempotent [of liveManager "''id-3''"] remove_idempotent [of liveManager "''id-1''"]
  by (simp add: liveManager_def find_session_def findAll_def remove_session_def Map_values_def)

section \<open>The service\<close>

text \<open>
  C1, as the spec states it, asks that a session whose handshake fails is gone from the
  live map when \<^verbatim>\<open>start\<close> rejects. The code does not do that: here \<^verbatim>\<open>start\<close> rejects
  with the error of the handshake and the session of the identifier \<open>id-1\<close> is still
  returned by \<^verbatim>\<open>findAll\<close>.
\<close>

theorem start_handshake_failure_counterexample:
  "fst (start ''id-1'' mockConfig failingService) = Inl handshakeFailed
   \<and> findAll (sessionManager (snd (start ''id-1'' mockConfig failingService)))
       = [mockSession ''id-1'' ''default'' (Some handshakeFailed)]
   \<and> ''id-1'' \<in> set (map session_id
         (findAll (sessionManager (snd (start ''id-1'' mockConfig failingService)))))"
  by (simp add: start_def failingService_def doubles manager_defs registry_defs)

text \<open>
  C1, amended. When \<^verbatim>\<open>create\<close> returns a session and the handshake of the session
  fails, \<^verbatim>\<open>start\<close> rejects with the error of the handshake, unchanged, and does no
  cleanup: the manager is the one \<^verbatim>\<open>create\<close> left, the session is in the live map under
  its generated identifier, and the entries of the other identifiers are as they were.
  The session stays there through every later history of \<^verbatim>\<open>create\<close> and \<^verbatim>\<open>remove\<close>
  calls on other identifiers; \<^verbatim>\<open>remove\<close> of its identifier takes it out.
\<close>

theorem start_handshake_failure:
  assumes "create uuid config (sessionManager svc) = (Inr s, mgr')"
    and "session_start s = Some e"
  shows "start uuid config svc = (Inl e, svc\<lparr>sessionManager := mgr'\<rparr>)
       \<and> find_session mgr' uuid = Some s
       \<and> s \<in> set (findAll mgr')
       \<and> (k \<noteq> uuid \<longrightarrow> find_session mgr' k = find_session (sessionManager svc) k)
       \<and> ((\<forall>op \<in> set ops. \<not> concerns uuid op) \<longrightarrow>
            find_session (run ops mgr') uuid = Some s)
       \<and> find_session (remove_session uuid mgr') uuid = None"
proof -
  have m: "mgr' = (sessionManager svc)\<lparr>sessions := Map_set (sessions (sessionManager svc)) uuid s\<rparr>"
    using assms(1) by (rule create_Inr)
  have f: "find_session mgr' uuid = Some s"
    using m by (simp add: find_session_def Map_get_set)
  then have a: "s \<in> set (findAll mgr')"
    unfolding find_session_def findAll_def by (rule Map_get_in_values)
  have st: "start uuid config svc = (Inl e, svc\<lparr>sessionManager := mgr'\<rparr>)"
    using assms by (simp add: start_def)
  have o: "find_session mgr' k = find_session (sessionManager svc) k" if "k \<noteq> uuid"
    using m that by (simp add: find_session_def Map_get_set)
  have p: "find_session (run ops mgr') uuid = Some s"
    if "\<forall>op \<in> set ops. \<not> concerns uuid op"
    using find_session_run_other [OF that, of mgr'] f by simp
  have r: "find_session (remove_session uuid mgr') uuid = None"
    by (simp add: find_session_remove)
  from st f a o p r show ?thesis by blast
qed

theorem start_handshake_failure_witness:
  "start ''id-1'' mockConfig failingService
     = (Inl handshakeFailed,
        failingService\<lparr>sessionManager := (sessionManager failingService)
          \<lparr>sessions := [(''id-1'', mockSession ''id-1'' ''default'' (Some handshakeFailed))]\<rparr>\<rparr>)
   \<and> find_session (run [Create ''id-2'' mockConfig, Remove ''id-2'', Remove ''id-3'']
         ((sessionManager failingService)
          \<lparr>sessions := [(''id-1'', mockSession ''id-1'' ''default'' (Some handshakeFailed))]\<rparr>))
         ''id-1''
       = Some (mockSession ''id-1'' ''default'' (Some handshakeFailed))"
proof -
  have a: "create ''id-1'' mockConfig (sessionManager failingService)
             = (Inr (mockSession ''id-1'' ''default'' (Some handshakeFailed)),
                (sessionManager failingService)
                  \<lparr>sessions := [(''id-1'', mockSession ''id-1'' ''default'' (Some handshakeFailed))]\<rparr>)"
    by (simp add: failingService_def doubles manager_defs registry_defs)
  have b: "session_start (mockSession ''id-1'' ''default'' (Some handshakeFailed))
             = Some handshakeFailed"
    by (simp add: doubles)
  have c: "\<forall>op \<in> set [Create ''id-2'' mockConfig, Remove ''id-2'', Remove ''id-3''].
             \<not> concerns ''id-1'' op"
    by simp
  show ?thesis
    using start_handshake_failure [OF a b,
        of _ "[Create ''id-2'' mockConfig, Remove ''id-2'', Remove ''id-3'']"] c
    by simp
qed

text \<open>
  C8, as the spec states it, asks that an identifier absent from the live map is silently
  ignored. The empty string is such an identifier, and \<^verbatim>\<open>if (sessionId)\<close> takes it for
  no identifier: here \<^verbatim>\<open>dispose\<close> of the empty string sends \<^verbatim>\<open>stop\<close> to both live sessions.
\<close>

theorem dispose_empty_id_counterexample:
  "find_session (sessionManager liveService) [] = None
   \<and> stopped liveService = []
   \<and> stopped (snd (dispose (Some []) liveService))
       = [mockSession ''id-1'' ''default'' None, mockSession ''id-2'' ''default'' None]"
  by (simp add: dispose_def truthy_def liveService_def liveManager_def find_session_def
      findAll_def Map_values_def stop_def)

text \<open>
  C8, amended. \<^verbatim>\<open>dispose\<close> never rejects and leaves the session manager, with its live
  map, as it is. An identifier that is not the empty string and is absent from the map is
  silently ignored: nothing changes. An identifier that is not the empty string and is in
  the map has \<^verbatim>\<open>stop\<close> sent to its session. Called with no identifier, or with the empty
  string, \<^verbatim>\<open>dispose\<close> sends \<^verbatim>\<open>stop\<close> to every session of the snapshot that \<^verbatim>\<open>findAll\<close>
  takes at the call, in the order of the snapshot.
\<close>

theorem dispose_requests_stop:
  "fst (dispose sessionId svc) = Inr ()
   \<and> sessionManager (snd (dispose sessionId svc)) = sessionManager svc
   \<and> (sessionId = Some i \<and> i \<noteq> [] \<and> find_session (sessionManager svc) i = None \<longrightarrow>
        snd (dispose sessionId svc) = svc)
   \<and> (sessionId = Some i \<and> i \<noteq> [] \<and> find_session (sessionManager svc) i = Some s \<longrightarrow>
        stopped (snd (dispose sessionId svc)) = stopped svc @ [s])
   \<and> (sessionId = None \<or> sessionId = Some [] \<longrightarrow>
        stopped (snd (dispose sessionId svc)) = stopped svc @ findAll (sessionManager svc))"
  by (auto simp: dispose_def truthy_def forEach_stop stop_def split: option.splits)

theorem dispose_requests_stop_witness:
  "find_session (sessionManager liveService) ''id-3'' = None
   \<and> dispose (Some ''id-3'') liveService = (Inr (), liveService)
   \<and> find_session (sessionManager liveService) ''id-2''
       = Some (mockSession ''id-2'' ''default'' None)
   \<and> stopped (snd (dispose (Some ''id-2'') liveService)) = [mockSession ''id-2'' ''default'' None]
   \<and> stopped (snd (dispose None liveService))
       = [mockSession ''id-1'' ''default'' None, mockSession ''id-2'' ''default'' None]
   \<and> findAll (sessionManager (snd (dispose None liveService)))
       = [mockSession ''id-1'' ''default'' None, mockSession ''id-2'' ''default'' None]"
  using dispose_requests_stop [of "Some ''id-3''" liveService "''id-3''"]
    dispose_requests_stop [of "Some ''id-2''" liveService "''id-2''"
      "mockSession ''id-2'' ''default'' None"]
    dispose_requests_stop [of None liveService]
  by (simp add: liveService_def liveManager_def find_session_def findAll_def Map_values_def
      prod_eq_iff)

section \<open>The defensive copy\<close>

text \<open>
  C9. \<^verbatim>\<open>findAll\<close> returns a reference to a new array, at an address where no array was
  before, holding the values of the live map at the call, and leaves the manager as it
  is. Whatever is done next short of changing that very array in place (\<^verbatim>\<open>create\<close> and
  \<^verbatim>\<open>remove\<close> calls, further \<^verbatim>\<open>findAll\<close> calls, changes of other arrays) leaves its
  contents as they were; and changes of arrays, the returned one among them, leave the
  values of the live map as they were.
\<close>

theorem findAll_defensive_copy:
  assumes "findAll_ref st = (ref, st')"
  shows "deref st ref = None
       \<and> deref st' ref = Some (findAll (manager st))
       \<and> manager st' = manager st
       \<and> ((\<forall>step \<in> set steps. \<not> mutates ref step) \<longrightarrow>
            deref (execs steps st') ref = Some (findAll (manager st)))
       \<and> ((\<forall>step \<in> set steps. is_mutation step) \<longrightarrow>
            findAll (manager (execs steps st')) = findAll (manager st))"
proof -
  from assms have r: "ref = length (arrays st)"
    and s: "st' = st\<lparr>arrays := arrays st @ [findAll (manager st)]\<rparr>"
    by (simp_all add: findAll_ref_eq)
  have d: "deref st' ref = Some (findAll (manager st))"
    using assms by (rule deref_findAll_ref)
  have l: "ref < length (arrays st')" using r s by simp
  have "deref (execs steps st') ref = Some (findAll (manager st))"
    if "\<forall>step \<in> set steps. \<not> mutates ref step"
    using execs_keep_array [OF l that] d by simp
  moreover have "findAll (manager (execs steps st')) = findAll (manager st)"
    if "\<forall>step \<in> set steps. is_mutation step"
    using execs_mutation_manager [OF that, of st'] s by simp
  moreover have "deref st ref = None" using r by (simp add: deref_def)
  moreover have "manager st' = manager st" using s by simp
  ultimately show ?thesis using d by blast
qed

theorem findAll_defensive_copy_witness:
  "findAll_ref liveStore
     = (0, liveStore\<lparr>arrays := [[mockSession ''id-1'' ''default'' None,
                                   mockSession ''id-2'' ''default'' None]]\<rparr>)
   \<and> deref (execs [Call (Remove ''id-1''), Call (Create ''id-3'' mockConfig), CallFindAll,
                    Mutate 1 (\<lambda>xs. [])]
         (liveStore\<lparr>arrays := [[mockSession ''id-1'' ''default'' None,
                                 mockSession ''id-2'' ''default'' None]]\<rparr>)) 0
       = Some [mockSession ''id-1'' ''default'' None, mockSession ''id-2'' ''default'' None]
   \<and> findAll (manager (execs [Mutate 0 (\<lambda>xs. []), Mutate 0 rev]
         (liveStore\<lparr>arrays := [[mockSession ''id-1'' ''default'' None,
                                 mockSession ''id-2'' ''default'' None]]\<rparr>)))
       = [mockSession ''id-1'' ''default'' None, mockSession ''id-2'' ''default'' None]"
proof -
  have a: "findAll_ref liveStore
     = (0, liveStore\<lparr>arrays := [[mockSession ''id-1'' ''default'' None,
                                   mockSession ''id-2'' ''default'' None]]\<rparr>)"
    by (simp add: findAll_ref_eq liveStore_def liveManager_def findAll_def Map_values_def)
  have f: "findAll (manager liveStore)
     = [mockSession ''id-1'' ''default'' None, mockSession ''id-2'' ''default'' None]"
    by (simp add: liveStore_def liveManager_def findAll_def Map_values_def)
  show ?thesis
    using findAll_defensive_copy [OF a, of "[Call (Remove ''id-1''),
        Call (Create ''id-3'' mockConfig), CallFindAll, Mutate 1 (\<lambda>xs. [])]"]
      findAll_defensive_copy [OF a, of "[Mutate 0 (\<lambda>xs. []), Mutate 0 rev]"]
    by (simp add: a f)
qed

end
